theory Spec2Isabelle
  imports Main
begin

section \<open>JavaScript values and the two fallback operators\<close>

text \<open>
  The values that flow through the level positions of the component. A TypeScript enum
  member is a string or a number at run time, and a store getter may answer
  \<open>undefined\<close> or \<open>null\<close> for a room without an override. Numbers are taken as
  integers (enum members are never fractional; NaN is left out).
\<close>

datatype jsval = JUndefined | JNull | JBool bool | JNum int | JStr string

fun truthy :: "jsval \<Rightarrow> bool" where
  "truthy JUndefined = False"
| "truthy JNull = False"
| "truthy (JBool b) = b"
| "truthy (JNum n) = (n \<noteq> 0)"
| "truthy (JStr s) = (s \<noteq> [])"

text \<open>The operator the source uses, \<^verbatim>\<open>a || b\<close>.\<close>

definition js_or :: "jsval \<Rightarrow> jsval \<Rightarrow> jsval" where
  "js_or a b = (if truthy a then a else b)"

text \<open>The operator the specification writes, \<^verbatim>\<open>a ?? b\<close>.\<close>

definition spec_nullish :: "jsval \<Rightarrow> jsval \<Rightarrow> jsval" where
  "spec_nullish a b = (if a = JUndefined \<or> a = JNull then b else a)"

section \<open>What the component imports\<close>

text \<open>
  Modelled from the spec: the enum \<^verbatim>\<open>NotificationSetting\<close> of
  \<^verbatim>\<open>notifications/types\<close>, which is not part of the sources at hand. Section 3 of the
  specification lists its four members; their run-time values are not given anywhere,
  so they are a parameter (\<open>enum\<close> below).
\<close>

datatype NotificationSetting =
  AllMessages | DirectMessagesMentionsKeywords | MentionsKeywordsOnly | Never

text \<open>The one field of a matrix-js-sdk room that the tile reads.\<close>

record Room =
  room_name :: string

text \<open>
  The two fields of the button's bounding rectangle that \<^verbatim>\<open>inPlaceOf\<close> reads.
  Coordinates are whole pixels here, where the browser has floating-point numbers; no
  statement below is about the position of the menu.
\<close>

record DOMRect =
  rect_right :: int
  rect_top :: int

text \<open>
  Everything the file obtains from other modules and from the browser, as parameters:
  the run-time value of each enum member, the translation function \<^verbatim>\<open>_t\<close>,
  the rounding helper, the client's room lookup and \<^verbatim>\<open>window.innerWidth\<close>.
\<close>

record externals =
  enum :: "NotificationSetting \<Rightarrow> jsval"
  translate :: "string \<Rightarrow> string"
  roundRoomNotificationSetting :: "string \<Rightarrow> jsval \<Rightarrow> jsval"
  getRoom :: "string \<Rightarrow> Room option"
  innerWidth :: int

text \<open>
  The state of \<^verbatim>\<open>NotificationSettingStore.instance\<close> as its three getters show it.
\<close>

record NotificationSettingStore =
  getRoomNotifyOverride :: "string \<Rightarrow> jsval"
  getRoomSoundOverride :: "string \<Rightarrow> jsval"
  getOverridenRooms :: "string list"

record IProps =
  notifyMeWith :: jsval
  playSoundFor :: jsval

record IRoomOverrideTileProps = IProps +
  roomId :: string

section \<open>Hooks\<close>

text \<open>
  A hook slot is \<open>None\<close> on the first render of a component and holds its value
  afterwards. \<^verbatim>\<open>useState(init)\<close> and \<^verbatim>\<open>useRef(init)\<close> both evaluate their
  argument on every render and keep it only on the first.
\<close>

definition useState :: "'a option \<Rightarrow> 'a \<Rightarrow> 'a" where
  "useState slot init = (case slot of None \<Rightarrow> init | Some v \<Rightarrow> v)"

definition useRef :: "'a option \<Rightarrow> 'a \<Rightarrow> 'a" where
  "useRef slot init = (case slot of None \<Rightarrow> init | Some v \<Rightarrow> v)"

text \<open>
  The hook state of one tile: the two slots of \<^verbatim>\<open>useContextMenu\<close> (whether the menu
  is displayed, and \<^verbatim>\<open>button.current\<close>, which React fills in once the button is in
  the document) and the pair held by \<^verbatim>\<open>useState\<close>.
\<close>

record tile_hooks =
  menuDisplayed :: bool
  button_current :: "DOMRect option"
  overrides :: "jsval \<times> jsval"

section \<open>What is rendered\<close>

datatype handler = OpenMenu | CloseMenu | OnResetAllRoomsClick

datatype node = Text string | Span "string list" | Undefined

datatype ChevronFace = ChevronFace_None

record MenuItem =
  mi_kind :: string
  mi_className :: string
  mi_aria_selected :: bool
  mi_onClick :: handler
  mi_children :: "node list"

record ContextMenu =
  cm_right :: int
  cm_top :: int
  cm_chevronOffset :: int
  cm_chevronFace :: ChevronFace
  cm_onFinished :: handler
  cm_className :: string
  cm_items :: "MenuItem list"

record RoomAvatar =
  av_room :: Room
  av_width :: nat
  av_height :: nat

record ContextMenuButton =
  cb_label :: string
  cb_onClick :: handler
  cb_isExpanded :: bool
  cb_kind :: string
  cb_children :: string

record tile_view =
  tv_className :: string
  tv_avatar :: RoomAvatar
  tv_name :: string
  tv_button :: ContextMenuButton
  tv_contextMenu :: "ContextMenu option"

datatype error = TypeError string

section \<open>The functions of the file\<close>

definition mapNotificationLevelToString :: "externals \<Rightarrow> jsval \<Rightarrow> string" where
  "mapNotificationLevelToString ext level =
     (if level = enum ext AllMessages then translate ext ''All Messages''
      else if level = enum ext DirectMessagesMentionsKeywords then translate ext ''Mentions & Keywords''
      else if level = enum ext MentionsKeywordsOnly then translate ext ''Mentions & Keywords''
      else if level = enum ext Never then translate ext ''None''
      else translate ext ''None'')"

definition inPlaceOf :: "externals \<Rightarrow> DOMRect \<Rightarrow> int \<times> int \<times> int \<times> ChevronFace" where
  "inPlaceOf ext elementRect =
     (innerWidth ext - rect_right elementRect - 48, rect_top elementRect - 24, 0, ChevronFace_None)"

text \<open>
  Lines 72 to 82 of the tile: the pair held by \<^verbatim>\<open>useState\<close>, the two rounded defaults
  and the two resolved levels.
\<close>

definition tile_overrides ::
  "NotificationSettingStore \<Rightarrow> IRoomOverrideTileProps \<Rightarrow> tile_hooks option \<Rightarrow> jsval \<times> jsval" where
  "tile_overrides store props hk =
     useState (map_option overrides hk)
       (getRoomNotifyOverride store (roomId props), getRoomSoundOverride store (roomId props))"

definition roundedNotifyMeWith :: "externals \<Rightarrow> IRoomOverrideTileProps \<Rightarrow> jsval" where
  "roundedNotifyMeWith ext props = roundRoomNotificationSetting ext (roomId props) (notifyMeWith props)"

definition roundedPlaySoundFor :: "externals \<Rightarrow> IRoomOverrideTileProps \<Rightarrow> jsval" where
  "roundedPlaySoundFor ext props = roundRoomNotificationSetting ext (roomId props) (playSoundFor props)"

definition notifyLevel ::
  "externals \<Rightarrow> NotificationSettingStore \<Rightarrow> IRoomOverrideTileProps \<Rightarrow> tile_hooks option \<Rightarrow> jsval" where
  "notifyLevel ext store props hk =
     js_or (fst (tile_overrides store props hk)) (roundedNotifyMeWith ext props)"

definition soundLevel ::
  "externals \<Rightarrow> NotificationSettingStore \<Rightarrow> IRoomOverrideTileProps \<Rightarrow> tile_hooks option \<Rightarrow> jsval" where
  "soundLevel ext store props hk =
     js_or (snd (tile_overrides store props hk)) (roundedPlaySoundFor ext props)"

definition defaultTag :: "externals \<Rightarrow> node" where
  "defaultTag ext = Span [''('', translate ext ''default'', '')'']"

text \<open>The three menu items, in the order of the source.\<close>

definition menuItems :: "externals \<Rightarrow> jsval \<Rightarrow> jsval \<Rightarrow> MenuItem list" where
  "menuItems ext nl rounded =
     [\<lparr>mi_kind = ''link'',
       mi_className = ''mx_NotificationsTab_RoomOverrideTile_ContextMenu_allMessages'',
       mi_aria_selected = (nl = enum ext AllMessages),
       mi_onClick = CloseMenu,
       mi_children =
         [Text (mapNotificationLevelToString ext (enum ext AllMessages)),
          if rounded = enum ext AllMessages then defaultTag ext else Undefined]\<rparr>,
      \<lparr>mi_kind = ''link'',
       mi_className = ''mx_NotificationsTab_RoomOverrideTile_ContextMenu_mentionsKeywords'',
       mi_aria_selected = (nl = enum ext MentionsKeywordsOnly),
       mi_onClick = CloseMenu,
       mi_children =
         [Text (mapNotificationLevelToString ext (enum ext MentionsKeywordsOnly)),
          if rounded = enum ext MentionsKeywordsOnly then defaultTag ext else Undefined]\<rparr>,
      \<lparr>mi_kind = ''link'',
       mi_className = ''mx_NotificationsTab_RoomOverrideTile_ContextMenu_none'',
       mi_aria_selected = (nl = enum ext Never),
       mi_onClick = CloseMenu,
       mi_children =
         [Text (mapNotificationLevelToString ext (enum ext Never)),
          if rounded = enum ext Never then defaultTag ext else Undefined]\<rparr>]"

text \<open>
  Lines 86 to 120: the menu is built only while it is displayed, and reading the
  rectangle of a button that is not there (\<^verbatim>\<open>button.current\<close> is \<open>null\<close>) throws.
\<close>

definition contextMenu ::
  "externals \<Rightarrow> bool \<Rightarrow> DOMRect option \<Rightarrow> jsval \<Rightarrow> jsval \<Rightarrow> error + ContextMenu option" where
  "contextMenu ext displayed button nl rounded =
     (if displayed then
        (case button of
           None \<Rightarrow> Inl (TypeError ''button.current.getBoundingClientRect'')
         | Some buttonRect \<Rightarrow>
             (case inPlaceOf ext buttonRect of (r, t, off, face) \<Rightarrow>
                Inr (Some \<lparr>cm_right = r, cm_top = t, cm_chevronOffset = off,
                          cm_chevronFace = face, cm_onFinished = CloseMenu,
                          cm_className = ''mx_NotificationsTab_RoomOverrideTile_ContextMenu'',
                          cm_items = menuItems ext nl rounded\<rparr>)))
      else Inr None)"

text \<open>
  The tile. The result is the fault, or the rendered tile with the hook state kept for
  the next render. The avatar element is only created here (its own rendering comes
  later), so the first read through a missing room is \<^verbatim>\<open>room.name\<close>.
  The hook \<^verbatim>\<open>useContextMenu\<close> is not part of the sources at hand: on the first
  render it is taken to report a closed menu and a button ref that is still empty.
\<close>

definition RoomOverrideTile ::
  "externals \<Rightarrow> NotificationSettingStore \<Rightarrow> IRoomOverrideTileProps \<Rightarrow> tile_hooks option
     \<Rightarrow> error + (tile_view \<times> tile_hooks)" where
  "RoomOverrideTile ext store props hk =
     (let displayed = (case hk of None \<Rightarrow> False | Some h \<Rightarrow> menuDisplayed h);
          button = (case hk of None \<Rightarrow> None | Some h \<Rightarrow> button_current h);
          room = getRoom ext (roomId props);
          nl = notifyLevel ext store props hk;
          sl = soundLevel ext store props hk
      in case contextMenu ext displayed button nl (roundedNotifyMeWith ext props) of
           Inl e \<Rightarrow> Inl e
         | Inr menu \<Rightarrow>
             (case room of
                None \<Rightarrow> Inl (TypeError ''room.name'')
              | Some r \<Rightarrow>
                  Inr (\<lparr>tv_className = ''mx_NotificationsTab_RoomOverrideTile'',
                        tv_avatar = \<lparr>av_room = r, av_width = 32, av_height = 32\<rparr>,
                        tv_name = (if room_name r \<noteq> [] then room_name r else roomId props),
                        tv_button = \<lparr>cb_label = translate ext ''TODO'', cb_onClick = OpenMenu,
                                     cb_isExpanded = displayed, cb_kind = ''link'',
                                     cb_children = mapNotificationLevelToString ext nl\<rparr>,
                        tv_contextMenu = menu\<rparr>,
                       \<lparr>menuDisplayed = displayed, button_current = button,
                        overrides = tile_overrides store props hk\<rparr>)))"

text \<open>
  The subscription of line 76: the store's change event for the room hands its payload
  to \<^verbatim>\<open>setOverrides\<close>.
\<close>

definition setOverrides :: "jsval \<times> jsval \<Rightarrow> tile_hooks \<Rightarrow> tile_hooks" where
  "setOverrides payload h = h\<lparr>overrides := payload\<rparr>"

section \<open>The section\<close>

record description_div =
  div_className :: string
  div_text :: string

record tile_element =
  te_key :: string
  te_props :: IRoomOverrideTileProps

record AccessibleButton =
  ab_kind :: string
  ab_onClick :: handler
  ab_text :: string

record SettingsSection =
  ss_title :: string
  ss_description :: description_div
  ss_tiles :: "tile_element list"
  ss_reset :: AccessibleButton

text \<open>The calls a render makes on the store, in order.\<close>

datatype store_call = GetOverridenRooms

text \<open>
  The two texts of lines 169 and 173. The source writes typographic quotation marks
  around Never in the first; they stand here as the three bytes each that they are in
  the source file.
\<close>

definition warningText :: string where
  "warningText =
     ''Account notifications are set to '' @ [CHR 0xE2, CHR 0x80, CHR 0x9C] @ ''Never''
       @ [CHR 0xE2, CHR 0x80, CHR 0x9D] @ '' and changes below will not apply.''"

definition descriptionText :: string where
  "descriptionText = ''Rooms listed below use custom notification settings''"

text \<open>
  The section. Its one hook slot is the ref of line 161. The result is what is
  rendered (\<open>None\<close> for \<^verbatim>\<open>null\<close>), the content of the ref after the render, and the
  calls made on the store: the argument of \<^verbatim>\<open>useRef\<close> is an ordinary call
  expression, evaluated each time the function runs. The tiles are elements (a key
  and props); rendering them is React's work, after the section has returned.
\<close>

definition RoomOverridesSection ::
  "externals \<Rightarrow> NotificationSettingStore \<Rightarrow> IProps \<Rightarrow> string list option
     \<Rightarrow> SettingsSection option \<times> string list \<times> store_call list" where
  "RoomOverridesSection ext store props ref =
     (let fetched = getOverridenRooms store;
          rooms = useRef ref fetched;
          description =
            (if notifyMeWith props = enum ext Never
             then \<lparr>div_className = ''mx_SettingsTab_errorText'',
                   div_text = translate ext warningText\<rparr>
             else \<lparr>div_className = ''mx_SettingsTab_subsectionText'',
                   div_text = translate ext descriptionText\<rparr>);
          tiles = map (\<lambda>r. \<lparr>te_key = r,
                              te_props = \<lparr>notifyMeWith = notifyMeWith props,
                                          playSoundFor = playSoundFor props,
                                          roomId = r\<rparr>\<rparr>) rooms
      in (if length rooms < 1 then None
          else Some \<lparr>ss_title = translate ext ''Room notifications'',
                     ss_description = description,
                     ss_tiles = tiles,
                     ss_reset = \<lparr>ab_kind = ''link'', ab_onClick = OnResetAllRoomsClick,
                                 ab_text = translate ext ''Reset all rooms''\<rparr>\<rparr>,
          rooms, [GetOverridenRooms]))"

text \<open>
  A mounted section over time: the first render has an empty ref, each later render
  finds what the one before left, and each sees the store and the props of its moment.
\<close>

fun renders ::
  "externals \<Rightarrow> string list option \<Rightarrow> (NotificationSettingStore \<times> IProps) list
     \<Rightarrow> SettingsSection option list \<times> store_call list" where
  "renders ext ref [] = ([], [])"
| "renders ext ref ((store, props) # rest) =
     (case RoomOverridesSection ext store props ref of
        (out, rooms, calls) \<Rightarrow>
          (case renders ext (Some rooms) rest of
             (outs, calls') \<Rightarrow> (out # outs, calls @ calls')))"

section \<open>Event handlers\<close>

record Dialog =
  dlg_analytics :: "string \<times> string"
  dlg_title :: string
  dlg_description :: string
  dlg_button :: string
  dlg_cancelButton :: string
  dlg_onFinished :: "bool \<Rightarrow> NotificationSettingStore \<Rightarrow> NotificationSettingStore"

text \<open>What a handler can reach: the store and the dialogs that are open.\<close>

record world =
  w_store :: NotificationSettingStore
  w_dialogs :: "Dialog list"

text \<open>
  Modelled from the spec: \<^verbatim>\<open>Modal.createTrackedDialog\<close>, which is not part of the
  sources at hand. The specification says of it only that the handler "opens a
  confirmation dialog": the dialog joins the open ones.
\<close>

definition createTrackedDialog :: "Dialog \<Rightarrow> world \<Rightarrow> world" where
  "createTrackedDialog d w = w\<lparr>w_dialogs := d # w_dialogs w\<rparr>"

text \<open>
  Modelled from the spec: the dialog service closing the newest dialog with the user's
  answer, which runs the dialog's \<^verbatim>\<open>onFinished\<close>.
\<close>

definition finishDialog :: "bool \<Rightarrow> world \<Rightarrow> world" where
  "finishDialog yes w =
     (case w_dialogs w of
        [] \<Rightarrow> w
      | d # ds \<Rightarrow> w\<lparr>w_store := dlg_onFinished d yes (w_store w), w_dialogs := ds\<rparr>)"

text \<open>Lines 145 to 149: the branch for a yes holds a comment and nothing else.\<close>

definition onFinished :: "bool \<Rightarrow> NotificationSettingStore \<Rightarrow> NotificationSettingStore" where
  "onFinished yes store = (if yes then store else store)"

definition onResetAllRoomsClick :: "externals \<Rightarrow> world \<Rightarrow> world" where
  "onResetAllRoomsClick ext w =
     createTrackedDialog
       \<lparr>dlg_analytics = (''Notifications'', ''Reset all room overrides dialog''),
        dlg_title = translate ext ''Resetting all rooms'',
        dlg_description = translate ext ''Are you sure you want to reset all rooms?'',
        dlg_button = translate ext ''Yes'',
        dlg_cancelButton = translate ext ''No'',
        dlg_onFinished = onFinished\<rparr> w"

text \<open>
  Modelled from the spec: \<^verbatim>\<open>openMenu\<close> and \<^verbatim>\<open>closeMenu\<close>, the callbacks that
  \<^verbatim>\<open>useContextMenu\<close> returns; the hook is not part of the sources at hand. The
  specification says that selecting an item "only closes the menu".
\<close>

definition openMenu :: "tile_hooks \<Rightarrow> tile_hooks" where
  "openMenu h = h\<lparr>menuDisplayed := True\<rparr>"

definition closeMenu :: "tile_hooks \<Rightarrow> tile_hooks" where
  "closeMenu h = h\<lparr>menuDisplayed := False\<rparr>"

text \<open>Running the handler that an element carries, on a tile's hooks and the world.\<close>

fun click :: "externals \<Rightarrow> handler \<Rightarrow> tile_hooks \<times> world \<Rightarrow> tile_hooks \<times> world" where
  "click ext OpenMenu (h, w) = (openMenu h, w)"
| "click ext CloseMenu (h, w) = (closeMenu h, w)"
| "click ext OnResetAllRoomsClick (h, w) = (h, onResetAllRoomsClick ext w)"

section \<open>Concrete surroundings for the examples\<close>

text \<open>A string-valued enum, an identity translation, and a rounding that settles the
  level for direct messages on the mentions-only level.\<close>

fun stringEnum :: "NotificationSetting \<Rightarrow> jsval" where
  "stringEnum AllMessages = JStr ''all_messages''"
| "stringEnum DirectMessagesMentionsKeywords = JStr ''dm_mentions_keywords''"
| "stringEnum MentionsKeywordsOnly = JStr ''mentions_keywords''"
| "stringEnum Never = JStr ''never''"

definition exampleRound :: "string \<Rightarrow> jsval \<Rightarrow> jsval" where
  "exampleRound rid level =
     (if level = stringEnum DirectMessagesMentionsKeywords then stringEnum MentionsKeywordsOnly
      else level)"

definition exampleExt :: externals where
  "exampleExt =
     \<lparr>enum = stringEnum, translate = (\<lambda>s. s), roundRoomNotificationSetting = exampleRound,
      getRoom = (\<lambda>rid. if rid = ''!a:hs'' then Some \<lparr>room_name = ''Room A''\<rparr> else None),
      innerWidth = 1000\<rparr>"

definition exampleStore :: NotificationSettingStore where
  "exampleStore =
     \<lparr>getRoomNotifyOverride = (\<lambda>rid. if rid = ''!a:hs'' then stringEnum Never else JUndefined),
      getRoomSoundOverride = (\<lambda>rid. JUndefined),
      getOverridenRooms = [''!a:hs'']\<rparr>"

definition clearedStore :: NotificationSettingStore where
  "clearedStore =
     \<lparr>getRoomNotifyOverride = (\<lambda>rid. JUndefined),
      getRoomSoundOverride = (\<lambda>rid. JUndefined),
      getOverridenRooms = []\<rparr>"

definition exampleProps :: IProps where
  "exampleProps =
     \<lparr>notifyMeWith = stringEnum DirectMessagesMentionsKeywords,
      playSoundFor = stringEnum AllMessages\<rparr>"

definition exampleTileProps :: IRoomOverrideTileProps where
  "exampleTileProps =
     \<lparr>notifyMeWith = stringEnum DirectMessagesMentionsKeywords,
      playSoundFor = stringEnum AllMessages, roomId = ''!a:hs''\<rparr>"

definition openHooks :: tile_hooks where
  "openHooks =
     \<lparr>menuDisplayed = True, button_current = Some \<lparr>rect_right = 900, rect_top = 100\<rparr>,
      overrides = (stringEnum Never, JUndefined)\<rparr>"

definition exampleMenu :: ContextMenu where
  "exampleMenu =
     \<lparr>cm_right = 52, cm_top = 76, cm_chevronOffset = 0,
      cm_chevronFace = ChevronFace_None, cm_onFinished = CloseMenu,
      cm_className = ''mx_NotificationsTab_RoomOverrideTile_ContextMenu'',
      cm_items = menuItems exampleExt (JStr ''never'') (JStr ''mentions_keywords'')\<rparr>"

definition exampleView :: tile_view where
  "exampleView =
     \<lparr>tv_className = ''mx_NotificationsTab_RoomOverrideTile'',
      tv_avatar = \<lparr>av_room = \<lparr>room_name = ''Room A''\<rparr>, av_width = 32, av_height = 32\<rparr>,
      tv_name = ''Room A'',
      tv_button = \<lparr>cb_label = ''TODO'', cb_onClick = OpenMenu, cb_isExpanded = True,
                   cb_kind = ''link'', cb_children = ''None''\<rparr>,
      tv_contextMenu = Some exampleMenu\<rparr>"

definition exampleSection :: SettingsSection where
  "exampleSection =
     \<lparr>ss_title = ''Room notifications'',
      ss_description = \<lparr>div_className = ''mx_SettingsTab_subsectionText'',
                        div_text = descriptionText\<rparr>,
      ss_tiles = [\<lparr>te_key = ''!a:hs'', te_props = exampleTileProps\<rparr>],
      ss_reset = \<lparr>ab_kind = ''link'', ab_onClick = OnResetAllRoomsClick,
                  ab_text = ''Reset all rooms''\<rparr>\<rparr>"

definition missingTileProps :: IRoomOverrideTileProps where
  "missingTileProps =
     \<lparr>notifyMeWith = stringEnum DirectMessagesMentionsKeywords,
      playSoundFor = stringEnum AllMessages, roomId = ''!b:hs''\<rparr>"

definition exampleWorld :: world where
  "exampleWorld = \<lparr>w_store = exampleStore, w_dialogs = []\<rparr>"

definition dmTileProps :: IRoomOverrideTileProps where
  "dmTileProps =
     \<lparr>notifyMeWith = stringEnum DirectMessagesMentionsKeywords,
      playSoundFor = stringEnum DirectMessagesMentionsKeywords, roomId = ''!a:hs''\<rparr>"

definition closedView :: tile_view where
  "closedView =
     \<lparr>tv_className = ''mx_NotificationsTab_RoomOverrideTile'',
      tv_avatar = \<lparr>av_room = \<lparr>room_name = ''Room A''\<rparr>, av_width = 32, av_height = 32\<rparr>,
      tv_name = ''Room A'',
      tv_button = \<lparr>cb_label = ''TODO'', cb_onClick = OpenMenu, cb_isExpanded = False,
                   cb_kind = ''link'', cb_children = ''Mentions & Keywords''\<rparr>,
      tv_contextMenu = None\<rparr>"

definition closedHooks :: tile_hooks where
  "closedHooks =
     \<lparr>menuDisplayed = False, button_current = None, overrides = (JUndefined, JUndefined)\<rparr>"

definition neverProps :: IProps where
  "neverProps = \<lparr>notifyMeWith = stringEnum Never, playSoundFor = stringEnum AllMessages\<rparr>"

definition warningSection :: SettingsSection where
  "warningSection =
     \<lparr>ss_title = ''Room notifications'',
      ss_description = \<lparr>div_className = ''mx_SettingsTab_errorText'', div_text = warningText\<rparr>,
      ss_tiles = [\<lparr>te_key = ''!a:hs'',
                  te_props = \<lparr>notifyMeWith = stringEnum Never,
                              playSoundFor = stringEnum AllMessages, roomId = ''!a:hs''\<rparr>\<rparr>],
      ss_reset = \<lparr>ab_kind = ''link'', ab_onClick = OnResetAllRoomsClick,
                  ab_text = ''Reset all rooms''\<rparr>\<rparr>"

section \<open>Notions used in the statements\<close>

text \<open>The rooms a rendering of the section shows: the keys of its tiles, none for \<^verbatim>\<open>null\<close>.\<close>

definition shownRooms :: "SettingsSection option \<Rightarrow> string list" where
  "shownRooms out = (case out of None \<Rightarrow> [] | Some sec \<Rightarrow> map te_key (ss_tiles sec))"

section \<open>Auxiliary facts\<close>

lemma or_nullish_agree:
  "truthy a \<or> a = JUndefined \<or> a = JNull \<Longrightarrow> js_or a b = spec_nullish a b"
  by (auto simp: js_or_def spec_nullish_def)

lemma tile_button_text:
  "RoomOverrideTile ext store props hk = Inr (v, h') \<Longrightarrow>
   cb_children (tv_button v) = mapNotificationLevelToString ext (notifyLevel ext store props hk)"
  by (auto simp: RoomOverrideTile_def Let_def split: sum.splits option.splits)

lemma tile_menu_items:
  "RoomOverrideTile ext store props hk = Inr (v, h') \<Longrightarrow> tv_contextMenu v = Some cm \<Longrightarrow>
   cm_items cm = menuItems ext (notifyLevel ext store props hk) (roundedNotifyMeWith ext props)"
  by (auto simp: RoomOverrideTile_def contextMenu_def Let_def
           split: sum.splits option.splits if_splits prod.splits)

lemma menuItems_children:
  "map mi_children (menuItems ext nl rounded)
     = map (\<lambda>l. [Text (mapNotificationLevelToString ext (enum ext l)),
                  if rounded = enum ext l then Span [''('', translate ext ''default'', '')'']
                  else Undefined])
         [AllMessages, MentionsKeywordsOnly, Never]"
  by (simp add: menuItems_def defaultTag_def)

lemma menuItems_one_tag:
  assumes "distinct (map (enum ext) [AllMessages, MentionsKeywordsOnly, Never])"
    and "rounded \<in> set (map (enum ext) [AllMessages, MentionsKeywordsOnly, Never])"
  shows "length (filter (\<lambda>i. Span [''('', translate ext ''default'', '')''] \<in> set (mi_children i))
                   (menuItems ext nl rounded)) = 1"
  using assms by (auto simp: menuItems_def defaultTag_def)

lemma tile_state_kept:
  "tile_overrides store props hk
     = (case hk of None \<Rightarrow> (getRoomNotifyOverride store (roomId props),
                             getRoomSoundOverride store (roomId props))
        | Some h \<Rightarrow> overrides h)"
  by (simp add: tile_overrides_def useState_def split: option.splits)

lemma stringEnum_truthy: "truthy (stringEnum m)"
  by (cases m) simp_all

lemma openTile:
  "RoomOverrideTile exampleExt exampleStore exampleTileProps (Some openHooks)
     = Inr (exampleView, openHooks)"
  by (simp add: RoomOverrideTile_def contextMenu_def inPlaceOf_def notifyLevel_def soundLevel_def
      tile_overrides_def useState_def roundedNotifyMeWith_def roundedPlaySoundFor_def js_or_def
      mapNotificationLevelToString_def exampleExt_def exampleStore_def exampleTileProps_def
      openHooks_def exampleRound_def exampleView_def exampleMenu_def Let_def)

lemma closedTile:
  "RoomOverrideTile exampleExt clearedStore dmTileProps None = Inr (closedView, closedHooks)"
  by (simp add: RoomOverrideTile_def contextMenu_def notifyLevel_def soundLevel_def
      tile_overrides_def useState_def roundedNotifyMeWith_def roundedPlaySoundFor_def js_or_def
      mapNotificationLevelToString_def exampleExt_def clearedStore_def dmTileProps_def
      exampleRound_def closedView_def closedHooks_def Let_def)

lemma menuItems_onClick:
  "item \<in> set (menuItems ext nl rounded) \<Longrightarrow> mi_onClick item = CloseMenu"
  by (auto simp: menuItems_def)

lemma section_rooms:
  "fst (snd (RoomOverridesSection ext store props ref)) = useRef ref (getOverridenRooms store)"
  by (simp add: RoomOverridesSection_def Let_def)

lemma section_calls:
  "snd (snd (RoomOverridesSection ext store props ref)) = [GetOverridenRooms]"
  by (simp add: RoomOverridesSection_def Let_def)

lemma section_null:
  "fst (RoomOverridesSection ext store props ref) = None
     \<longleftrightarrow> useRef ref (getOverridenRooms store) = []"
  by (simp add: RoomOverridesSection_def Let_def)

lemma section_shown:
  "shownRooms (fst (RoomOverridesSection ext store props ref))
     = useRef ref (getOverridenRooms store)"
  by (simp add: RoomOverridesSection_def Let_def shownRooms_def comp_def)

lemma section_tiles:
  "fst (RoomOverridesSection ext store props ref) = Some sec \<Longrightarrow>
   ss_tiles sec = map (\<lambda>r. \<lparr>te_key = r, te_props = \<lparr>notifyMeWith = notifyMeWith props,
                     playSoundFor = playSoundFor props, roomId = r\<rparr>\<rparr>)
                   (useRef ref (getOverridenRooms store))"
  by (auto simp: RoomOverridesSection_def Let_def split: if_splits)

lemma section_description:
  "fst (RoomOverridesSection ext store props ref) = Some sec \<Longrightarrow>
   ss_description sec =
     (if notifyMeWith props = enum ext Never
      then \<lparr>div_className = ''mx_SettingsTab_errorText'', div_text = translate ext warningText\<rparr>
      else \<lparr>div_className = ''mx_SettingsTab_subsectionText'',
            div_text = translate ext descriptionText\<rparr>)"
  by (auto simp: RoomOverridesSection_def Let_def split: if_splits)

lemma section_reset:
  "fst (RoomOverridesSection ext store props ref) = Some sec \<Longrightarrow>
   ab_onClick (ss_reset sec) = OnResetAllRoomsClick"
  by (auto simp: RoomOverridesSection_def Let_def split: if_splits)

lemma exampleSection_rendered:
  "fst (RoomOverridesSection exampleExt exampleStore exampleProps None) = Some exampleSection"
  by (simp add: RoomOverridesSection_def Let_def useRef_def exampleExt_def exampleStore_def
      exampleProps_def exampleSection_def exampleTileProps_def)

text \<open>Once mounted, every render shows the rooms of the ref and calls the getter once more.\<close>

lemma renders_mounted:
  "renders ext (Some rooms) seq
     = (map (\<lambda>(s, p). fst (RoomOverridesSection ext s p (Some rooms))) seq,
        replicate (length seq) GetOverridenRooms)"
proof (induction seq)
  case Nil
  show ?case by simp
next
  case (Cons sp seq)
  obtain s p where sp: "sp = (s, p)" by (cases sp)
  obtain out rooms' calls
    where r: "RoomOverridesSection ext s p (Some rooms) = (out, rooms', calls)"
    by (cases "RoomOverridesSection ext s p (Some rooms)")
  have "rooms' = rooms"
    using section_rooms [of ext s p "Some rooms"] r by (simp add: useRef_def)
  moreover have "calls = [GetOverridenRooms]"
    using section_calls [of ext s p "Some rooms"] r by simp
  ultimately show ?case using Cons.IH r by (simp add: sp)
qed

lemma renders_shown:
  "map shownRooms (fst (renders ext (Some rooms) seq)) = replicate (length seq) rooms"
  by (induction seq) (auto simp: renders_mounted section_shown useRef_def)

lemma section_first_render:
  "fst (renders ext None ((store, props) # later))
     = fst (RoomOverridesSection ext store props None)
       # map (\<lambda>(s, p). fst (RoomOverridesSection ext s p (Some (getOverridenRooms store)))) later"
proof -
  obtain out rooms calls
    where r: "RoomOverridesSection ext store props None = (out, rooms, calls)"
    by (cases "RoomOverridesSection ext store props None")
  have rooms: "rooms = getOverridenRooms store"
    using section_rooms [of ext store props None] r by (simp add: useRef_def)
  show ?thesis by (simp add: r renders_mounted rooms)
qed

text \<open>
  Two remarks on what the hypotheses of C1 and C2 are for. An override whose run-time
  value is falsy is passed over by \<^verbatim>\<open>||\<close>, as a numeric enum starting at zero would
  have it; and a rounded default that is none of the three menu levels leaves every
  item without the tag.
\<close>

lemma falsy_override_passed_over:
  "\<not> truthy (fst (tile_overrides store props hk)) \<Longrightarrow>
   notifyLevel ext store props hk
     = roundRoomNotificationSetting ext (roomId props) (notifyMeWith props)"
  by (simp add: notifyLevel_def js_or_def roundedNotifyMeWith_def)

lemma no_tag_outside_menu_levels:
  "rounded \<notin> set (map (enum ext) [AllMessages, MentionsKeywordsOnly, Never]) \<Longrightarrow>
   filter (\<lambda>i. Span [''('', translate ext ''default'', '')''] \<in> set (mi_children i))
     (menuItems ext nl rounded) = []"
  by (auto simp: menuItems_def defaultTag_def)

section \<open>The resolved level (C1)\<close>

text \<open>
  C1. For every room id and every global default, the level on the tile's menu button
  is the room's notify override when one is set, and otherwise the result of
  \<^verbatim>\<open>roundRoomNotificationSetting\<close> on the room id and the \<^verbatim>\<open>notifyMeWith\<close> prop: the
  source's \<^verbatim>\<open>||\<close> gives what the specification's \<^verbatim>\<open>??\<close> gives. The sound level is
  resolved the same way from the sound override and the rounded \<^verbatim>\<open>playSoundFor\<close>.
  The overrides are the pair the tile holds: the store's on the first render, the
  state's afterwards. The enum's values are not in the sources at hand, so the
  statement is about every enum whose members are truthy values (any string enum with
  non-empty strings, any numeric enum without a zero), and about overrides that are
  unset or a member of the enum. On the first render a tile for a room the client
  knows is rendered.
\<close>

theorem effective_level_is_override_or_rounded_default:
  assumes members: "\<forall>m. truthy (enum ext m)"
    and held: "(nov, sov) = (case hk of
                   None \<Rightarrow> (getRoomNotifyOverride store (roomId props),
                             getRoomSoundOverride store (roomId props))
                 | Some h \<Rightarrow> overrides h)"
    and notify: "nov = JUndefined \<or> nov = JNull \<or> (\<exists>m. nov = enum ext m)"
    and sound: "sov = JUndefined \<or> sov = JNull \<or> (\<exists>m. sov = enum ext m)"
  shows "notifyLevel ext store props hk
           = spec_nullish nov (roundRoomNotificationSetting ext (roomId props) (notifyMeWith props))
       \<and> soundLevel ext store props hk
           = spec_nullish sov (roundRoomNotificationSetting ext (roomId props) (playSoundFor props))
       \<and> (\<forall>v h'. RoomOverrideTile ext store props hk = Inr (v, h') \<longrightarrow>
            cb_children (tv_button v) = mapNotificationLevelToString ext
              (spec_nullish nov
                 (roundRoomNotificationSetting ext (roomId props) (notifyMeWith props))))
       \<and> (getRoom ext (roomId props) \<noteq> None \<and> hk = None \<longrightarrow>
            (\<exists>v h'. RoomOverrideTile ext store props hk = Inr (v, h')))"
proof -
  have ov: "tile_overrides store props hk = (nov, sov)"
    using held by (simp add: tile_state_kept)
  from members notify
  have n: "notifyLevel ext store props hk
           = spec_nullish nov (roundRoomNotificationSetting ext (roomId props) (notifyMeWith props))"
    unfolding notifyLevel_def ov roundedNotifyMeWith_def fst_conv
    by (intro or_nullish_agree) auto
  from members sound
  have s: "soundLevel ext store props hk
           = spec_nullish sov (roundRoomNotificationSetting ext (roomId props) (playSoundFor props))"
    unfolding soundLevel_def ov roundedPlaySoundFor_def snd_conv
    by (intro or_nullish_agree) auto
  have r: "getRoom ext (roomId props) \<noteq> None \<and> hk = None \<longrightarrow>
            (\<exists>v h'. RoomOverrideTile ext store props hk = Inr (v, h'))"
    by (auto simp: RoomOverrideTile_def contextMenu_def Let_def)
  from n s r show ?thesis by (auto dest: tile_button_text)
qed

text \<open>
  A room without overrides, both defaults on the level for direct messages: the
  helper rounds each, the tile is rendered, and its button shows the rounded level.
\<close>

theorem effective_level_is_override_or_rounded_default_witness:
  "(\<forall>m. truthy (enum exampleExt m))
   \<and> notifyMeWith dmTileProps = enum exampleExt DirectMessagesMentionsKeywords
   \<and> roundRoomNotificationSetting exampleExt (roomId dmTileProps) (notifyMeWith dmTileProps)
       = enum exampleExt MentionsKeywordsOnly
   \<and> RoomOverrideTile exampleExt clearedStore dmTileProps None = Inr (closedView, closedHooks)
   \<and> cb_children (tv_button closedView) = ''Mentions & Keywords''
   \<and> notifyLevel exampleExt clearedStore dmTileProps None = JStr ''mentions_keywords''
   \<and> soundLevel exampleExt clearedStore dmTileProps None = JStr ''mentions_keywords''"
proof -
  have members: "\<forall>m. truthy (enum exampleExt m)"
    by (simp add: exampleExt_def stringEnum_truthy)
  have held: "(JUndefined, JUndefined) = (case None of
                   None \<Rightarrow> (getRoomNotifyOverride clearedStore (roomId dmTileProps),
                             getRoomSoundOverride clearedStore (roomId dmTileProps))
                 | Some h \<Rightarrow> overrides h)"
    by (simp add: clearedStore_def)
  have u: "JUndefined = JUndefined \<or> JUndefined = JNull \<or> (\<exists>m. JUndefined = enum exampleExt m)"
    by simp
  have r: "roundRoomNotificationSetting exampleExt (roomId dmTileProps) (notifyMeWith dmTileProps)
       = enum exampleExt MentionsKeywordsOnly"
    by (simp add: exampleExt_def dmTileProps_def exampleRound_def)
  have r': "roundRoomNotificationSetting exampleExt (roomId dmTileProps) (playSoundFor dmTileProps)
       = enum exampleExt MentionsKeywordsOnly"
    by (simp add: exampleExt_def dmTileProps_def exampleRound_def)
  have p: "notifyMeWith dmTileProps = enum exampleExt DirectMessagesMentionsKeywords"
    by (simp add: exampleExt_def dmTileProps_def)
  from effective_level_is_override_or_rounded_default [OF members held u u]
  show ?thesis
    using members r r' p closedTile
    by (simp add: spec_nullish_def closedView_def exampleExt_def)
qed

section \<open>The default tag (C2)\<close>

text \<open>
  C2. In the popup menu of three choices (all messages, mentions and keywords only,
  never, in this order) each item holds its label followed by the "(default)" tag,
  the span of an opening bracket, the translated word default and a closing bracket,
  if its level is what \<^verbatim>\<open>roundRoomNotificationSetting\<close> gives for the room id and the
  \<^verbatim>\<open>notifyMeWith\<close> prop, and by nothing otherwise; so the tag is on exactly one item
  and on no other. The rounding helper is not in the sources at hand; the statement is
  about every helper whose result is one of the three levels a room can be given, and
  every enum that gives these three levels different values.
\<close>

theorem default_tag_on_exactly_the_rounded_default:
  assumes distinct_levels: "distinct (map (enum ext) [AllMessages, MentionsKeywordsOnly, Never])"
    and rendered: "RoomOverrideTile ext store props hk = Inr (v, h')"
    and menu: "tv_contextMenu v = Some cm"
    and rounded: "roundRoomNotificationSetting ext (roomId props) (notifyMeWith props)
                    \<in> set (map (enum ext) [AllMessages, MentionsKeywordsOnly, Never])"
  shows "map mi_children (cm_items cm)
           = map (\<lambda>l. [Text (mapNotificationLevelToString ext (enum ext l)),
                        if roundRoomNotificationSetting ext (roomId props) (notifyMeWith props)
                             = enum ext l
                        then Span [''('', translate ext ''default'', '')'']
                        else Undefined])
               [AllMessages, MentionsKeywordsOnly, Never]
       \<and> length (filter (\<lambda>i. Span [''('', translate ext ''default'', '')''] \<in> set (mi_children i))
                   (cm_items cm)) = 1"
proof -
  have items: "cm_items cm
      = menuItems ext (notifyLevel ext store props hk)
          (roundRoomNotificationSetting ext (roomId props) (notifyMeWith props))"
    using tile_menu_items [OF rendered menu] by (simp add: roundedNotifyMeWith_def)
  show ?thesis
    unfolding items using menuItems_children menuItems_one_tag [OF distinct_levels rounded]
    by blast
qed

theorem default_tag_on_exactly_the_rounded_default_witness:
  "distinct (map (enum exampleExt) [AllMessages, MentionsKeywordsOnly, Never])
   \<and> RoomOverrideTile exampleExt exampleStore exampleTileProps (Some openHooks)
       = Inr (exampleView, openHooks)
   \<and> tv_contextMenu exampleView = Some exampleMenu
   \<and> notifyMeWith exampleTileProps = enum exampleExt DirectMessagesMentionsKeywords
   \<and> roundRoomNotificationSetting exampleExt (roomId exampleTileProps) (notifyMeWith exampleTileProps)
       = enum exampleExt MentionsKeywordsOnly
   \<and> map mi_children (cm_items exampleMenu)
       = [[Text ''All Messages'', Undefined],
          [Text ''Mentions & Keywords'', Span [''('', ''default'', '')'']],
          [Text ''None'', Undefined]]"
proof -
  have d: "distinct (map (enum exampleExt) [AllMessages, MentionsKeywordsOnly, Never])"
    by (simp add: exampleExt_def)
  have m: "tv_contextMenu exampleView = Some exampleMenu"
    by (simp add: exampleView_def)
  have p: "notifyMeWith exampleTileProps = enum exampleExt DirectMessagesMentionsKeywords"
    by (simp add: exampleExt_def exampleTileProps_def)
  have r: "roundRoomNotificationSetting exampleExt (roomId exampleTileProps)
             (notifyMeWith exampleTileProps) = enum exampleExt MentionsKeywordsOnly"
    by (simp add: exampleExt_def exampleTileProps_def exampleRound_def)
  have r': "roundRoomNotificationSetting exampleExt (roomId exampleTileProps)
              (notifyMeWith exampleTileProps)
              \<in> set (map (enum exampleExt) [AllMessages, MentionsKeywordsOnly, Never])"
    by (simp add: r)
  from default_tag_on_exactly_the_rounded_default [OF d openTile m r']
  show ?thesis
    using d openTile m p r
    by (simp add: exampleExt_def mapNotificationLevelToString_def)
qed

section \<open>When the section renders nothing (C3)\<close>

text \<open>
  C3. The section returns \<^verbatim>\<open>null\<close> if and only if the list of overridden rooms that
  the store gave at mount is empty: so on the first render, and so on every later
  render of the mounted section, whatever the store holds by then. When that list is
  not empty, each render gives one tile per room of the list, in order, with the room
  as key and room id and with the two defaults of that render.
\<close>

theorem section_null_iff_no_overridden_rooms:
  "(fst (RoomOverridesSection ext store props None) = None \<longleftrightarrow> getOverridenRooms store = [])
   \<and> list_all2
       (\<lambda>out (s, p).
          (out = None \<longleftrightarrow> getOverridenRooms store = [])
          \<and> (\<forall>sec. out = Some sec \<longrightarrow>
                ss_tiles sec
                  = map (\<lambda>r. \<lparr>te_key = r,
                              te_props = \<lparr>notifyMeWith = notifyMeWith p,
                                          playSoundFor = playSoundFor p, roomId = r\<rparr>\<rparr>)
                      (getOverridenRooms store)))
       (fst (renders ext None ((store, props) # later))) ((store, props) # later)"
proof -
  have one: "(fst (RoomOverridesSection ext s p ref) = None \<longleftrightarrow> getOverridenRooms store = [])
          \<and> (\<forall>sec. fst (RoomOverridesSection ext s p ref) = Some sec \<longrightarrow>
                ss_tiles sec
                  = map (\<lambda>r. \<lparr>te_key = r,
                              te_props = \<lparr>notifyMeWith = notifyMeWith p,
                                          playSoundFor = playSoundFor p, roomId = r\<rparr>\<rparr>)
                      (getOverridenRooms store))"
    if "useRef ref (getOverridenRooms s) = getOverridenRooms store" for s p ref
    using that section_null [of ext s p ref] section_tiles [of ext s p ref] by simp
  have first: "useRef None (getOverridenRooms store) = getOverridenRooms store"
    by (simp add: useRef_def)
  have later': "useRef (Some (getOverridenRooms store)) (getOverridenRooms s)
                  = getOverridenRooms store" for s
    by (simp add: useRef_def)
  show ?thesis
    unfolding section_first_render
    using one [OF first, of props] one [OF later']
    by (auto simp: list_all2_map1 intro!: list_all2_same [THEN iffD2])
qed

text \<open>
  A section mounted on a store with one overridden room still shows that room after
  the overrides are cleared; one mounted on a store without any stays empty.
\<close>

theorem section_null_iff_no_overridden_rooms_witness:
  "fst (renders exampleExt None [(exampleStore, exampleProps), (clearedStore, exampleProps)])
     = [Some exampleSection, Some exampleSection]
   \<and> getOverridenRooms exampleStore = [''!a:hs'']
   \<and> getOverridenRooms clearedStore = []
   \<and> ss_tiles exampleSection = [\<lparr>te_key = ''!a:hs'', te_props = exampleTileProps\<rparr>]
   \<and> fst (renders exampleExt None [(clearedStore, exampleProps), (exampleStore, exampleProps)])
     = [None, None]"
proof -
  have a: "fst (renders exampleExt None [(exampleStore, exampleProps), (clearedStore, exampleProps)])
     = [Some exampleSection, Some exampleSection]"
    by (simp add: RoomOverridesSection_def Let_def useRef_def exampleExt_def exampleStore_def
        clearedStore_def exampleProps_def exampleSection_def exampleTileProps_def)
  have b: "fst (renders exampleExt None [(clearedStore, exampleProps), (exampleStore, exampleProps)])
     = [None, None]"
    by (simp add: RoomOverridesSection_def Let_def useRef_def exampleExt_def exampleStore_def
        clearedStore_def exampleProps_def)
  from section_null_iff_no_overridden_rooms
         [of exampleExt exampleStore exampleProps "[(clearedStore, exampleProps)]"]
  show ?thesis
    using a b by (simp add: exampleStore_def clearedStore_def exampleSection_def)
qed

section \<open>The warning (C4)\<close>

text \<open>
  C4. Every render of a section whose list of rooms is not empty gives the section,
  and in it the description is the warning (the error-text element with the text that
  account notifications are set to Never and changes below will not apply) when the
  \<^verbatim>\<open>notifyMeWith\<close> prop is the enum's Never, and the ordinary description (the
  sub-section text that the rooms listed use custom settings) when it is not; the
  error-text element is there if and only if the prop is Never.
\<close>

theorem warning_iff_notifyMeWith_never:
  assumes held: "rooms = (case ref of None \<Rightarrow> getOverridenRooms store | Some r \<Rightarrow> r)"
    and nonempty: "rooms \<noteq> []"
  shows "\<exists>sec. fst (RoomOverridesSection ext store props ref) = Some sec
       \<and> (notifyMeWith props = enum ext Never \<longrightarrow>
            ss_description sec
              = \<lparr>div_className = ''mx_SettingsTab_errorText'',
                 div_text = translate ext
                   (''Account notifications are set to '' @ [CHR 0xE2, CHR 0x80, CHR 0x9C]
                    @ ''Never'' @ [CHR 0xE2, CHR 0x80, CHR 0x9D]
                    @ '' and changes below will not apply.'')\<rparr>)
       \<and> (notifyMeWith props \<noteq> enum ext Never \<longrightarrow>
            ss_description sec
              = \<lparr>div_className = ''mx_SettingsTab_subsectionText'',
                 div_text = translate ext
                   ''Rooms listed below use custom notification settings''\<rparr>)
       \<and> (div_className (ss_description sec) = ''mx_SettingsTab_errorText''
            \<longleftrightarrow> notifyMeWith props = enum ext Never)"
proof -
  have "useRef ref (getOverridenRooms store) \<noteq> []"
    using held nonempty by (simp add: useRef_def)
  then obtain sec where sec: "fst (RoomOverridesSection ext store props ref) = Some sec"
    using section_null [of ext store props ref] by auto
  show ?thesis
    using sec section_description [OF sec]
    by (auto simp: warningText_def descriptionText_def)
qed

text \<open>The same store and room with the account's level on Never, and with it elsewhere.\<close>

theorem warning_iff_notifyMeWith_never_witness:
  "[''!a:hs''] = (case None of None \<Rightarrow> getOverridenRooms exampleStore | Some r \<Rightarrow> r)
   \<and> notifyMeWith neverProps = enum exampleExt Never
   \<and> fst (RoomOverridesSection exampleExt exampleStore neverProps None) = Some warningSection
   \<and> div_className (ss_description warningSection) = ''mx_SettingsTab_errorText''
   \<and> div_text (ss_description warningSection)
       = ''Account notifications are set to '' @ [CHR 0xE2, CHR 0x80, CHR 0x9C]
         @ ''Never'' @ [CHR 0xE2, CHR 0x80, CHR 0x9D] @ '' and changes below will not apply.''
   \<and> notifyMeWith exampleProps \<noteq> enum exampleExt Never
   \<and> fst (RoomOverridesSection exampleExt exampleStore exampleProps None) = Some exampleSection
   \<and> div_className (ss_description exampleSection) = ''mx_SettingsTab_subsectionText''"
proof -
  have h: "[''!a:hs''] = (case None of None \<Rightarrow> getOverridenRooms exampleStore | Some r \<Rightarrow> r)"
    by (simp add: exampleStore_def)
  have ne: "[''!a:hs''] \<noteq> []" by simp
  have n: "notifyMeWith neverProps = enum exampleExt Never"
    by (simp add: neverProps_def exampleExt_def)
  have w: "fst (RoomOverridesSection exampleExt exampleStore neverProps None) = Some warningSection"
    by (simp add: RoomOverridesSection_def Let_def useRef_def exampleExt_def exampleStore_def
        neverProps_def warningSection_def)
  have o: "notifyMeWith exampleProps \<noteq> enum exampleExt Never"
    by (simp add: exampleProps_def exampleExt_def)
  from warning_iff_notifyMeWith_never [OF h ne, of exampleExt neverProps]
  show ?thesis
    using h n w o exampleSection_rendered
    by (simp add: warningSection_def exampleSection_def warningText_def)
qed

section \<open>One fetch of the list (C5)\<close>

text \<open>
  C5. The section is to read the store's list of overridden rooms exactly once, at
  the first render, and to show that list in every later render. The comment on line
  160 of the source says as much: the list is fetched only once. The list shown is the
  first render's, but the fetch is not single: the call of the getter is the argument
  of \<^verbatim>\<open>useRef\<close> on line 161, an expression that runs each time the function does.
  A section mounted on a store with one overridden room and rendered again after the
  overrides are cleared calls the getter twice, and shows the room both times.
\<close>

theorem second_render_calls_getter_again:
  "snd (renders exampleExt None [(exampleStore, exampleProps), (clearedStore, exampleProps)])
     = [GetOverridenRooms, GetOverridenRooms]
   \<and> length (snd (renders exampleExt None
                    [(exampleStore, exampleProps), (clearedStore, exampleProps)])) \<noteq> 1
   \<and> map shownRooms
       (fst (renders exampleExt None [(exampleStore, exampleProps), (clearedStore, exampleProps)]))
     = [[''!a:hs''], [''!a:hs'']]"
  by (simp add: RoomOverridesSection_def Let_def useRef_def shownRooms_def exampleStore_def)

section \<open>Reset all rooms (C6)\<close>

text \<open>
  C6. The handler of "Reset all rooms" opens a confirmation dialog and leaves the
  store as it was; when the dialog finishes, with a yes or with a no, the store is
  still as it was before the click.
\<close>

theorem reset_all_rooms_leaves_store:
  "w_store (onResetAllRoomsClick ext w) = w_store w
   \<and> length (w_dialogs (onResetAllRoomsClick ext w)) = Suc (length (w_dialogs w))
   \<and> w_store (finishDialog yes (onResetAllRoomsClick ext w)) = w_store w
   \<and> snd (click ext OnResetAllRoomsClick (h, w)) = onResetAllRoomsClick ext w"
  by (simp add: onResetAllRoomsClick_def createTrackedDialog_def finishDialog_def onFinished_def)

section \<open>Selecting a menu item (C7)\<close>

text \<open>
  C7. Selecting any item of a tile's popup menu closes the menu and does nothing else:
  the store is as before, and so is the pair of overrides the tile holds.
\<close>

theorem menu_selection_only_closes_menu:
  assumes rendered: "RoomOverrideTile ext store props hk = Inr (v, h')"
    and menu: "tv_contextMenu v = Some cm"
    and item: "item \<in> set (cm_items cm)"
  shows "click ext (mi_onClick item) (h', w) = (h'\<lparr>menuDisplayed := False\<rparr>, w)
       \<and> w_store (snd (click ext (mi_onClick item) (h', w))) = w_store w
       \<and> overrides (fst (click ext (mi_onClick item) (h', w))) = overrides h'"
proof -
  have "mi_onClick item = CloseMenu"
    using item unfolding tile_menu_items [OF rendered menu] by (rule menuItems_onClick)
  then show ?thesis by (simp add: closeMenu_def)
qed

theorem menu_selection_only_closes_menu_witness:
  "RoomOverrideTile exampleExt exampleStore exampleTileProps (Some openHooks)
       = Inr (exampleView, openHooks)
   \<and> tv_contextMenu exampleView = Some exampleMenu
   \<and> cm_items exampleMenu ! 2 \<in> set (cm_items exampleMenu)
   \<and> click exampleExt (mi_onClick (cm_items exampleMenu ! 2)) (openHooks, exampleWorld)
       = (openHooks\<lparr>menuDisplayed := False\<rparr>, exampleWorld)"
proof -
  have m: "tv_contextMenu exampleView = Some exampleMenu"
    by (simp add: exampleView_def)
  have i: "cm_items exampleMenu ! 2 \<in> set (cm_items exampleMenu)"
    by (simp add: exampleMenu_def menuItems_def)
  from menu_selection_only_closes_menu [OF openTile m i, of exampleWorld]
  show ?thesis
    using openTile m i by simp
qed

section \<open>A room the client does not know (C8)\<close>

text \<open>
  C8. When the client has no room for the room id, rendering the tile faults: nothing
  is rendered, and the fault is the read of \<^verbatim>\<open>room.name\<close> on the first render and
  on every later one whose menu is closed or whose button is in the document.
\<close>

theorem missing_room_faults:
  assumes missing: "getRoom ext (roomId props) = None"
  shows "(\<exists>e. RoomOverrideTile ext store props hk = Inl e)
       \<and> (hk = None \<longrightarrow> RoomOverrideTile ext store props hk = Inl (TypeError ''room.name''))
       \<and> (\<forall>h. hk = Some h \<and> (menuDisplayed h \<longrightarrow> button_current h \<noteq> None) \<longrightarrow>
             RoomOverrideTile ext store props hk = Inl (TypeError ''room.name''))"
  using missing
  by (auto simp: RoomOverrideTile_def contextMenu_def Let_def
           split: sum.splits option.splits prod.splits)

theorem missing_room_faults_witness:
  "getRoom exampleExt (roomId missingTileProps) = None
   \<and> RoomOverrideTile exampleExt exampleStore missingTileProps None
       = Inl (TypeError ''room.name'')"
proof -
  have g: "getRoom exampleExt (roomId missingTileProps) = None"
    by (simp add: exampleExt_def missingTileProps_def)
  from missing_room_faults [OF g, of exampleStore None]
  show ?thesis
    using g by simp
qed

section \<open>The label of a level (C9)\<close>

text \<open>
  C9. \<^verbatim>\<open>mapNotificationLevelToString\<close> answers every input with one of three labels:
  "All Messages" for the all-messages level, "Mentions & Keywords" for both the
  direct-messages-mentions-keywords level and the mentions-keywords-only level (two
  different inputs, so the function is not injective), and "None" for the never level
  and for every other value. The enum's values are a parameter; they are taken to be
  four different values.
\<close>

theorem mapNotificationLevelToString_three_labels:
  assumes "distinct (map (enum ext)
             [AllMessages, DirectMessagesMentionsKeywords, MentionsKeywordsOnly, Never])"
  shows "mapNotificationLevelToString ext level
           \<in> {translate ext ''All Messages'', translate ext ''Mentions & Keywords'',
               translate ext ''None''}
       \<and> mapNotificationLevelToString ext (enum ext AllMessages) = translate ext ''All Messages''
       \<and> mapNotificationLevelToString ext (enum ext DirectMessagesMentionsKeywords)
           = translate ext ''Mentions & Keywords''
       \<and> mapNotificationLevelToString ext (enum ext MentionsKeywordsOnly)
           = translate ext ''Mentions & Keywords''
       \<and> enum ext DirectMessagesMentionsKeywords \<noteq> enum ext MentionsKeywordsOnly
       \<and> mapNotificationLevelToString ext (enum ext Never) = translate ext ''None''
       \<and> (level \<notin> set (map (enum ext)
                          [AllMessages, DirectMessagesMentionsKeywords, MentionsKeywordsOnly])
            \<longrightarrow> mapNotificationLevelToString ext level = translate ext ''None'')
       \<and> \<not> inj (mapNotificationLevelToString ext)"
proof -
  have ni: "\<not> inj (mapNotificationLevelToString ext)"
  proof
    assume "inj (mapNotificationLevelToString ext)"
    moreover have "mapNotificationLevelToString ext (enum ext DirectMessagesMentionsKeywords)
        = mapNotificationLevelToString ext (enum ext MentionsKeywordsOnly)"
      using assms by (auto simp: mapNotificationLevelToString_def)
    ultimately have "enum ext DirectMessagesMentionsKeywords = enum ext MentionsKeywordsOnly"
      by (rule injD)
    with assms show False by simp
  qed
  show ?thesis using assms ni
    by (auto simp: mapNotificationLevelToString_def)
qed

theorem mapNotificationLevelToString_three_labels_witness:
  "distinct (map (enum exampleExt)
      [AllMessages, DirectMessagesMentionsKeywords, MentionsKeywordsOnly, Never])
   \<and> JNum 7 \<notin> set (map (enum exampleExt)
                     [AllMessages, DirectMessagesMentionsKeywords, MentionsKeywordsOnly])
   \<and> mapNotificationLevelToString exampleExt (JNum 7) = ''None''
   \<and> mapNotificationLevelToString exampleExt (JStr ''dm_mentions_keywords'')
       = ''Mentions & Keywords''
   \<and> mapNotificationLevelToString exampleExt (JStr ''mentions_keywords'')
       = ''Mentions & Keywords''"
proof -
  have d: "distinct (map (enum exampleExt)
      [AllMessages, DirectMessagesMentionsKeywords, MentionsKeywordsOnly, Never])"
    by (simp add: exampleExt_def)
  have o: "JNum 7 \<notin> set (map (enum exampleExt)
                     [AllMessages, DirectMessagesMentionsKeywords, MentionsKeywordsOnly])"
    by (simp add: exampleExt_def)
  from mapNotificationLevelToString_three_labels [OF d, of "JNum 7"]
  show ?thesis
    using d o by (simp add: exampleExt_def)
qed

section \<open>The sound level is not rendered (C10)\<close>

text \<open>
  C10. What the tile renders (the tile, or the fault) is the same for any two values
  of the \<^verbatim>\<open>playSoundFor\<close> prop and any two values of the room's sound override, in the
  store and in the tile's own state, when everything else is the same.
\<close>

theorem rendering_independent_of_sound:
  "map_sum id fst
     (RoomOverrideTile ext (store\<lparr>getRoomSoundOverride := g\<rparr>) (props\<lparr>playSoundFor := x\<rparr>)
        (map_option (\<lambda>h. h\<lparr>overrides := (fst (overrides h), y)\<rparr>) hk))
   = map_sum id fst (RoomOverrideTile ext store props hk)"
  by (cases hk)
     (auto simp: RoomOverrideTile_def contextMenu_def Let_def notifyLevel_def tile_overrides_def
        useState_def roundedNotifyMeWith_def
        split: sum.splits option.splits prod.splits)

end
